theory Spec2Isabelle
  imports Complex_Main
begin

section \<open>Python values used by the backend\<close>

text \<open>
  A Python \<open>str\<close> is a sequence of Unicode code points and \<open>len\<close> counts code points,
  so a string is a list of natural numbers. \<open>lit\<close> turns an ASCII literal of the source
  into such a list.
\<close>

type_synonym pystr = "nat list"

definition lit :: "string \<Rightarrow> pystr" where
  "lit s = map of_char s"

text \<open>The characters removed by \<open>str.strip()\<close> without argument (those with \<open>str.isspace\<close>).\<close>

definition isspace :: "nat \<Rightarrow> bool" where
  "isspace c \<longleftrightarrow>
     (9 \<le> c \<and> c \<le> 13) \<or> (28 \<le> c \<and> c \<le> 32) \<or> c = 133 \<or> c = 160 \<or> c = 5760 \<or>
     (8192 \<le> c \<and> c \<le> 8202) \<or> c = 8232 \<or> c = 8233 \<or> c = 8239 \<or> c = 8287 \<or> c = 12288"

definition strip :: "pystr \<Rightarrow> pystr" where
  "strip s = rev (dropWhile isspace (rev (dropWhile isspace s)))"

definition startswith :: "pystr \<Rightarrow> pystr \<Rightarrow> bool" where
  "startswith s p \<longleftrightarrow> take (length p) s = p"

text \<open>
  \<open>s.replace(old, new)\<close> for a non-empty \<open>old\<close>: occurrences are replaced from left to
  right and do not overlap. The source only calls it with non-empty literals; for an empty
  \<open>old\<close> this definition leaves the text as it is.
\<close>

function replace :: "pystr \<Rightarrow> pystr \<Rightarrow> pystr \<Rightarrow> pystr" where
  "replace old new [] = []"
| "replace old new (c # cs) =
     (if old \<noteq> [] \<and> startswith (c # cs) old
      then new @ replace old new (drop (length old) (c # cs))
      else c # replace old new cs)"
  by pat_completeness auto
termination
  by (relation "measure (\<lambda>(old, new, s). length s)") (auto simp: Suc_diff_le)

text \<open>\<open>needle in haystack\<close> for two strings: the substring test.\<close>

fun substring :: "pystr \<Rightarrow> pystr \<Rightarrow> bool" where
  "substring p [] = (p = [])"
| "substring p (c # cs) = (startswith (c # cs) p \<or> substring p cs)"

subsection \<open>Exceptions\<close>

text \<open>
  The exception classes that the handlers of the backend tell apart, and the ones the
  interpreter raises on the paths modelled here. \<open>Timeout\<close>, \<open>HTTPError\<close>,
  \<open>ConnectionError\<close> and \<open>OtherRequestException\<close> are the subclasses of
  \<open>requests.exceptions.RequestException\<close>. \<open>ValueError\<close> stands for a \<open>ValueError\<close> that
  is neither a \<open>JSONDecodeError\<close> nor a \<open>UnicodeDecodeError\<close>, which \<open>except
  json.JSONDecodeError\<close> does not catch. An exception carries its message text.
\<close>

datatype exn_class =
    Timeout | HTTPError | ConnectionError | OtherRequestException
  | JSONDecodeError | UnicodeDecodeError | ValueError
  | KeyError | IndexError | TypeError | AttributeError
  | OtherException

datatype exn = Exn (cls: exn_class) (msg: pystr)

definition is_Timeout :: "exn \<Rightarrow> bool" where
  "is_Timeout e \<longleftrightarrow> cls e = Timeout"

definition is_RequestException :: "exn \<Rightarrow> bool" where
  "is_RequestException e \<longleftrightarrow>
     cls e = Timeout \<or> cls e = HTTPError \<or> cls e = ConnectionError \<or> cls e = OtherRequestException"

definition is_JSONDecodeError :: "exn \<Rightarrow> bool" where
  "is_JSONDecodeError e \<longleftrightarrow> cls e = JSONDecodeError"

text \<open>
  An exception raised by the interpreter itself; its message is only ever written to the
  log and is left empty here.
\<close>

definition raise :: "exn_class \<Rightarrow> exn + 'a" where
  "raise c = Inl (Exn c [])"

definition bnd :: "exn + 'a \<Rightarrow> ('a \<Rightarrow> exn + 'b) \<Rightarrow> exn + 'b" where
  "bnd m f = (case m of Inl e \<Rightarrow> Inl e | Inr x \<Rightarrow> f x)"

subsection \<open>Values produced by \<open>json.loads\<close>\<close>

text \<open>
  \<open>JNull\<close> is Python's \<open>None\<close>. A \<open>dict\<close> is an association list in insertion order
  with distinct keys. A \<open>float\<close> is infinite, not a number, or finite; \<open>Finite x\<close> stands for
  the double nearest to \<open>x\<close>, and \<open>Finite 0\<close> for both zeros. The program never compares two
  floats, so that two reals with the same nearest double are kept apart here does not show.
\<close>

datatype pyfloat = Finite real | PosInf | NegInf | NaN

datatype json =
    JNull | JBool bool | JInt int | JFloat pyfloat | JStr pystr
  | JArr "json list" | JObj "(pystr \<times> json) list"

type_synonym loads_fn = "pystr \<Rightarrow> exn + json"

section \<open>Response extractor\<close>

text \<open>
  \<open>re.search(r'\{.*\}', text, re.DOTALL | re.MULTILINE)\<close>: the match starts at the first
  \<open>{\<close> and, the star being greedy and the dot matching every character, ends at the last
  \<open>}\<close> of the text; there is no match when no \<open>}\<close> follows the first \<open>{\<close>.
\<close>

definition search_braces :: "pystr \<Rightarrow> pystr option" where
  "search_braces text =
     (let rest = dropWhile (\<lambda>c. c \<noteq> 123) text
      in if rest = [] then None
         else if 125 \<in> set (tl rest)
         then Some (rev (dropWhile (\<lambda>c. c \<noteq> 125) (rev rest)))
         else None)"

definition strip_fences :: "pystr \<Rightarrow> pystr" where
  "strip_fences text =
     (if startswith text (lit ''```json'')
      then replace (lit ''```'') [] (replace (lit ''```json'') [] text)
      else if startswith text (lit ''```'')
      then replace (lit ''```'') [] text
      else text)"

text \<open>
  The repair step: each newline (10) becomes backslash (92) and \<open>n\<close>, then each tab (9)
  becomes backslash and \<open>t\<close>.
\<close>

definition repair :: "pystr \<Rightarrow> pystr" where
  "repair json_str = replace [9] [92, 116] (replace [10] [92, 110] json_str)"

text \<open>The last strategy of the extractor: \<open>json.loads(text)\<close>, else \<open>None\<close>.\<close>

definition direct_parse :: "loads_fn \<Rightarrow> pystr \<Rightarrow> exn + json" where
  "direct_parse loads text =
     (case loads text of
        Inr v \<Rightarrow> Inr v
      | Inl e \<Rightarrow> if is_JSONDecodeError e then Inr JNull else Inl e)"

text \<open>
  \<open>extract_json_from_response\<close>. The parser \<open>json.loads\<close> is a parameter. Each
  \<open>except json.JSONDecodeError\<close> catches that class only; any other exception of the
  parser leaves the routine.
\<close>

definition extract_json_from_response :: "loads_fn \<Rightarrow> pystr \<Rightarrow> exn + json" where
  "extract_json_from_response loads text0 =
     (let text = strip_fences (strip text0)
      in case search_braces text of
           None \<Rightarrow> direct_parse loads text
         | Some m \<Rightarrow>
             (let json_str = strip m
              in case loads json_str of
                   Inr v \<Rightarrow> Inr v
                 | Inl e \<Rightarrow>
                     if is_JSONDecodeError e
                     then (case loads (repair json_str) of
                             Inr v \<Rightarrow> Inr v
                           | Inl e' \<Rightarrow>
                               if is_JSONDecodeError e' then direct_parse loads text
                               else Inl e')
                     else Inl e))"


section \<open>Dynamic operations of the interpreter on parsed values\<close>

text \<open>\<open>bool(x)\<close>, as in \<open>if parsed_json and ...\<close>.\<close>

fun truthy :: "json \<Rightarrow> bool" where
  "truthy JNull = False"
| "truthy (JBool b) = b"
| "truthy (JInt n) = (n \<noteq> 0)"
| "truthy (JFloat f) = (f \<noteq> Finite 0)"
| "truthy (JStr s) = (s \<noteq> [])"
| "truthy (JArr xs) = (xs \<noteq> [])"
| "truthy (JObj kvs) = (kvs \<noteq> [])"

text \<open>
  \<open>key in x\<close> for a string \<open>key\<close>: key membership in a dict, element membership in a
  list, the substring test in a string, and a \<open>TypeError\<close> on every other value.
\<close>

fun py_contains :: "pystr \<Rightarrow> json \<Rightarrow> exn + bool" where
  "py_contains k (JObj kvs) = Inr (k \<in> fst ` set kvs)"
| "py_contains k (JArr xs) = Inr (JStr k \<in> set xs)"
| "py_contains k (JStr s) = Inr (substring k s)"
| "py_contains k _ = raise TypeError"

text \<open>\<open>x[key]\<close> for a string \<open>key\<close>.\<close>

fun py_getitem :: "json \<Rightarrow> pystr \<Rightarrow> exn + json" where
  "py_getitem (JObj kvs) k = (case map_of kvs k of Some v \<Rightarrow> Inr v | None \<Rightarrow> raise KeyError)"
| "py_getitem _ k = raise TypeError"

text \<open>
  \<open>x[0]\<close>: the first element of a list, the first character of a string (as a string),
  a \<open>KeyError\<close> on a dict (whose keys are strings), a \<open>TypeError\<close> otherwise.
\<close>

fun py_getitem0 :: "json \<Rightarrow> exn + json" where
  "py_getitem0 (JArr []) = raise IndexError"
| "py_getitem0 (JArr (x # xs)) = Inr x"
| "py_getitem0 (JStr []) = raise IndexError"
| "py_getitem0 (JStr (c # cs)) = Inr (JStr [c])"
| "py_getitem0 (JObj kvs) = raise KeyError"
| "py_getitem0 _ = raise TypeError"

fun py_len :: "json \<Rightarrow> exn + nat" where
  "py_len (JStr s) = Inr (length s)"
| "py_len (JArr xs) = Inr (length xs)"
| "py_len (JObj kvs) = Inr (length kvs)"
| "py_len _ = raise TypeError"

text \<open>\<open>x.get(key, default)\<close>: only a dict has the method.\<close>

fun py_get :: "json \<Rightarrow> pystr \<Rightarrow> json \<Rightarrow> exn + json" where
  "py_get (JObj kvs) k d = Inr (case map_of kvs k of Some v \<Rightarrow> v | None \<Rightarrow> d)"
| "py_get _ k d = raise AttributeError"

text \<open>
  \<open>str(x)\<close>: a string is returned as it is; for every other value Python prints its
  \<open>repr\<close>, which is a parameter.
\<close>

definition py_str :: "(json \<Rightarrow> pystr) \<Rightarrow> json \<Rightarrow> pystr" where
  "py_str py_repr x = (case x of JStr s \<Rightarrow> s | _ \<Rightarrow> py_repr x)"

section \<open>Completion client\<close>

text \<open>
  What the provider answers. For the buffered call: the exception raised by
  \<open>requests.post\<close>, \<open>raise_for_status\<close> or \<open>response.json()\<close>, or the decoded body.
  For the incremental call: the exception raised by \<open>requests.post\<close> or
  \<open>raise_for_status\<close>, or the lines that \<open>iter_lines\<close> yields and the way the iteration
  ends. A line is \<open>Inr s\<close> when its bytes decode as UTF-8 to \<open>s\<close> and \<open>Inl e\<close> when
  \<open>line.decode('utf-8')\<close> raises \<open>e\<close> (such a line is not empty). The prompt that both
  calls send, the instructions of \<open>generate_repo\<close> around the trimmed description, has no
  other use in the handler; the two answers stand for what the provider returns to it.
\<close>

datatype stream_end = Closed | Aborted exn

type_synonym raw_line = "exn + pystr"

record provider =
  complete_response :: "exn + json"
  stream_response :: "exn + (raw_line list \<times> stream_end)"

definition query_groq_complete :: "provider \<Rightarrow> exn + json" where
  "query_groq_complete P = complete_response P"

text \<open>
  The body of the \<open>try\<close> in the loop of \<open>query_groq_stream\<close>, after \<open>json.loads\<close>:
  the content to append, if the fragment has one. The source evaluates
  \<open>data['choices']\<close> twice, with the same result.
\<close>

definition delta_content :: "json \<Rightarrow> exn + pystr option" where
  "delta_content data =
     bnd (py_contains (lit ''choices'') data) (\<lambda>has_choices.
       if \<not> has_choices then Inr None
       else bnd (py_getitem data (lit ''choices'')) (\<lambda>choices.
            bnd (py_len choices) (\<lambda>n.
       if \<not> 0 < n then Inr None
       else bnd (py_getitem0 choices) (\<lambda>choice.
            bnd (py_get choice (lit ''delta'') (JObj [])) (\<lambda>delta.
            bnd (py_contains (lit ''content'') delta) (\<lambda>has_content.
       if \<not> has_content then Inr None
       else bnd (py_getitem delta (lit ''content'')) (\<lambda>content.
            case content of JStr s \<Rightarrow> Inr (Some s) | _ \<Rightarrow> raise TypeError)))))))"

text \<open>The loop \<open>for line in response.iter_lines()\<close>, with \<open>full_content\<close> as accumulator.\<close>

fun accumulate :: "loads_fn \<Rightarrow> pystr \<Rightarrow> raw_line list \<Rightarrow> stream_end \<Rightarrow> exn + pystr" where
  "accumulate loads full_content [] Closed = Inr full_content"
| "accumulate loads full_content [] (Aborted e) = Inl e"
| "accumulate loads full_content (Inl e # ls) fin = Inl e"
| "accumulate loads full_content (Inr line # ls) fin =
     (if line = [] then accumulate loads full_content ls fin
      else if startswith line (lit ''data: '') then
        if strip line = lit ''data: [DONE]'' then Inr full_content
        else (case loads (drop 6 line) of
                Inl e \<Rightarrow>
                  if is_JSONDecodeError e then accumulate loads full_content ls fin
                  else Inl e
              | Inr data \<Rightarrow>
                  (case delta_content data of
                     Inl e \<Rightarrow> if is_JSONDecodeError e then accumulate loads full_content ls fin
                              else Inl e
                   | Inr None \<Rightarrow> accumulate loads full_content ls fin
                   | Inr (Some s) \<Rightarrow> accumulate loads (full_content @ s) ls fin))
      else accumulate loads full_content ls fin)"

definition query_groq_stream :: "loads_fn \<Rightarrow> provider \<Rightarrow> exn + pystr" where
  "query_groq_stream loads P =
     (case stream_response P of
        Inl e \<Rightarrow> Inl e
      | Inr (ls, fin) \<Rightarrow> accumulate loads [] ls fin)"

section \<open>Generation orchestrator\<close>

text \<open>
  The generator yields server-sent events as text; an event is kept here with its
  structure: a status line with its \<open>status\<close> and \<open>message\<close>, \<open>event: done\<close> with the
  dict that is serialised after \<open>data:\<close>, \<open>event: error\<close> with its \<open>error\<close> and \<open>code\<close>.
\<close>

datatype event =
    StatusEvent pystr pystr
  | DoneEvent "(pystr \<times> pystr) list"
  | ErrorEvent pystr pystr

text \<open>What the generator does, in order: the events it yields and the calls it makes.\<close>

datatype action = Yield event | CallComplete | CallStream

definition status_generating :: event where
  "status_generating = StatusEvent (lit ''generating'') (129302 # lit '' Generating repository...'')"

definition status_processing :: event where
  "status_processing = StatusEvent (lit ''generating'') (128221 # lit '' Processing response...'')"

text \<open>The three \<open>except\<close> clauses of \<open>event_stream\<close>, in their order.\<close>

definition handle_exception :: "exn \<Rightarrow> event" where
  "handle_exception e =
     (if is_Timeout e
      then ErrorEvent (lit ''Request timeout - please try again'') (lit ''TIMEOUT'')
      else if is_RequestException e
      then ErrorEvent (lit ''AI service temporarily unavailable'') (lit ''API_ERROR'')
      else ErrorEvent (lit ''Internal server error'') (lit ''INTERNAL_ERROR''))"

text \<open>\<open>response['choices'][0]['message']['content']\<close>\<close>

definition message_content :: "json \<Rightarrow> exn + json" where
  "message_content response =
     bnd (py_getitem response (lit ''choices'')) (\<lambda>choices.
     bnd (py_getitem0 choices) (\<lambda>choice.
     bnd (py_getitem choice (lit ''message'')) (\<lambda>message.
     py_getitem message (lit ''content''))))"

text \<open>\<open>all(key in parsed_json for key in keys)\<close>: it stops at the first key that is missing.\<close>

fun all_in :: "pystr list \<Rightarrow> json \<Rightarrow> exn + bool" where
  "all_in [] parsed_json = Inr True"
| "all_in (k # ks) parsed_json =
     bnd (py_contains k parsed_json) (\<lambda>b. if b then all_in ks parsed_json else Inr False)"

definition required_keys :: "pystr list" where
  "required_keys = [lit ''repository_name'', lit ''description'', lit ''readme_content'']"

definition is_valid :: "json \<Rightarrow> exn + bool" where
  "is_valid parsed_json =
     (if truthy parsed_json then all_in required_keys parsed_json else Inr False)"

definition clean_field :: "(json \<Rightarrow> pystr) \<Rightarrow> json \<Rightarrow> pystr \<Rightarrow> exn + pystr" where
  "clean_field py_repr parsed_json k =
     bnd (py_get parsed_json k (JStr [])) (\<lambda>v. Inr (strip (py_str py_repr v)))"

definition clean_data :: "(json \<Rightarrow> pystr) \<Rightarrow> json \<Rightarrow> exn + (pystr \<times> pystr) list" where
  "clean_data py_repr parsed_json =
     bnd (clean_field py_repr parsed_json (lit ''repository_name'')) (\<lambda>n.
     bnd (clean_field py_repr parsed_json (lit ''description'')) (\<lambda>d.
     bnd (clean_field py_repr parsed_json (lit ''readme_content'')) (\<lambda>r.
     Inr [(lit ''repository_name'', take 50 n),
          (lit ''description'', take 200 d),
          (lit ''readme_content'', r)])))"

text \<open>
  The README of the fallback. In the source the f-string writes \<open>\\n\<close>, which is the two
  characters backslash (92) and \<open>n\<close> (110); 128640 is the rocket.
\<close>

definition bsn :: pystr where
  "bsn = [92, 110]"

definition fallback_readme :: "pystr \<Rightarrow> pystr" where
  "fallback_readme user_prompt =
     lit ''# AI Generated Project '' @ [128640] @ bsn @ bsn @
     lit ''This project was generated based on: '' @ user_prompt @ bsn @ bsn @
     lit ''## Features'' @ bsn @ bsn @
     lit ''- AI-powered functionality'' @ bsn @
     lit ''- Modern tech stack'' @ bsn @
     lit ''- Easy to customize'' @ bsn @ bsn @
     lit ''## Getting Started'' @ bsn @ bsn @
     lit ''```bash'' @ bsn @
     lit ''git clone <repo-url>'' @ bsn @
     lit ''cd project'' @ bsn @
     lit ''npm install'' @ bsn @
     lit ''npm start'' @ bsn @
     lit ''```'' @ bsn @ bsn @
     lit ''## License'' @ bsn @ bsn @
     lit ''MIT License''"

definition fallback_response :: "pystr \<Rightarrow> pystr \<Rightarrow> (pystr \<times> pystr) list" where
  "fallback_response user_prompt full_response =
     [(lit ''repository_name'', lit ''ai-generated-project''),
      (lit ''description'', lit ''AI-generated project based on user requirements''),
      (lit ''readme_content'', fallback_readme user_prompt),
      (lit ''raw_response'', take 500 full_response),
      (lit ''note'', lit ''Fallback response due to JSON parsing issues'')]"

text \<open>
  The part of \<open>event_stream\<close> after the completion text is there, for a text that is a
  string: extraction, the test of the three keys, and the event of either branch. The
  first \<open>py_get\<close> of the valid branch is the one in the arguments of \<open>logger.info\<close>.
\<close>

definition respond_text :: "loads_fn \<Rightarrow> (json \<Rightarrow> pystr) \<Rightarrow> pystr \<Rightarrow> pystr \<Rightarrow> exn + event" where
  "respond_text loads py_repr user_prompt full_response =
     bnd (extract_json_from_response loads full_response) (\<lambda>parsed_json.
     bnd (is_valid parsed_json) (\<lambda>valid.
       if valid
       then bnd (py_get parsed_json (lit ''repository_name'') JNull) (\<lambda>_.
            bnd (clean_data py_repr parsed_json) (\<lambda>clean. Inr (DoneEvent clean)))
       else Inr (DoneEvent (fallback_response user_prompt full_response))))"

text \<open>
  The same part for any value of \<open>full_response\<close>: the buffered call returns whatever the
  body holds at \<open>content\<close>. \<open>len(full_response)\<close> is evaluated for the log; then
  \<open>text.strip()\<close> in the extractor exists for a string only.
\<close>

definition respond :: "loads_fn \<Rightarrow> (json \<Rightarrow> pystr) \<Rightarrow> pystr \<Rightarrow> json \<Rightarrow> exn + event" where
  "respond loads py_repr user_prompt full_response =
     bnd (py_len full_response) (\<lambda>_.
       case full_response of
         JStr text \<Rightarrow> respond_text loads py_repr user_prompt text
       | _ \<Rightarrow> raise AttributeError)"

definition terminal :: "exn + event \<Rightarrow> event" where
  "terminal r = (case r of Inr ev \<Rightarrow> ev | Inl e \<Rightarrow> handle_exception e)"

text \<open>
  \<open>event_stream\<close>: the status line, the buffered call, and on any exception of that call
  or of reading the content out of its body, the second status line and the incremental
  call. An exception of the incremental call or of anything after is turned into the
  error event by the outer handlers.
\<close>

definition event_stream :: "loads_fn \<Rightarrow> (json \<Rightarrow> pystr) \<Rightarrow> provider \<Rightarrow> pystr \<Rightarrow> action list" where
  "event_stream loads py_repr P user_prompt =
     Yield status_generating # CallComplete #
     (case bnd (query_groq_complete P) message_content of
        Inr full_response \<Rightarrow>
          [Yield (terminal (respond loads py_repr user_prompt full_response))]
      | Inl _ \<Rightarrow>
          [Yield status_processing, CallStream,
           Yield (terminal (bnd (query_groq_stream loads P) (\<lambda>full_response.
                    respond loads py_repr user_prompt (JStr full_response))))])"

text \<open>
  \<open>generate_repo\<close>: the body is validated against \<open>RepoRequest\<close> (\<open>min_length=5\<close>,
  \<open>max_length=500\<close> on the prompt as sent) before the handler runs; the handler trims the
  prompt and returns the stream.
\<close>

datatype reply = ValidationError | Streaming "action list"

definition validate_request :: "pystr \<Rightarrow> bool" where
  "validate_request prompt \<longleftrightarrow> 5 \<le> length prompt \<and> length prompt \<le> 500"

definition generate_repo :: "loads_fn \<Rightarrow> (json \<Rightarrow> pystr) \<Rightarrow> provider \<Rightarrow> pystr \<Rightarrow> reply" where
  "generate_repo loads py_repr P prompt =
     (if validate_request prompt
      then Streaming (event_stream loads py_repr P (strip prompt))
      else ValidationError)"


section \<open>A parser for the grammar of \<open>json.loads\<close>\<close>

text \<open>
  The theorems on the extractor and the client hold for every parser. To run them on
  concrete texts, this is a recursive-descent parser for the documents that Python's
  \<open>json.loads\<close> accepts: the JSON grammar with the whitespace space, tab, newline and
  carriage return, strings in strict mode (no character below 32), the escapes of JSON
  with surrogate pairs joined, and the literals \<open>NaN\<close>, \<open>Infinity\<close> and \<open>-Infinity\<close>.
  A number with a fraction or an exponent becomes a float: the double nearest to its
  decimal value, zero when the value underflows and infinite when it overflows. A text
  outside this grammar raises \<open>JSONDecodeError\<close>. A number without
  fraction and exponent is converted by \<open>int\<close>, which since Python 3.11 (and the security
  releases of 3.7 to 3.10) raises a plain \<open>ValueError\<close> when the literal has more than
  4300 digits, the default of \<open>sys.set_int_max_str_digits\<close>; the documentation of the
  \<open>json\<close> module records it. The recursion is bounded by the length of the text, which
  every nested or following value shortens.
\<close>

definition json_ws :: "nat \<Rightarrow> bool" where
  "json_ws c \<longleftrightarrow> c = 32 \<or> c = 9 \<or> c = 10 \<or> c = 13"

definition skip_ws :: "pystr \<Rightarrow> pystr" where
  "skip_ws s = dropWhile json_ws s"

definition is_digit :: "nat \<Rightarrow> bool" where
  "is_digit c \<longleftrightarrow> 48 \<le> c \<and> c \<le> 57"

definition hexval :: "nat \<Rightarrow> nat option" where
  "hexval c =
     (if 48 \<le> c \<and> c \<le> 57 then Some (c - 48)
      else if 97 \<le> c \<and> c \<le> 102 then Some (c - 87)
      else if 65 \<le> c \<and> c \<le> 70 then Some (c - 55)
      else None)"

definition hex4 :: "nat \<Rightarrow> nat \<Rightarrow> nat \<Rightarrow> nat \<Rightarrow> nat option" where
  "hex4 a b c d =
     (case (hexval a, hexval b, hexval c, hexval d) of
        (Some x, Some y, Some z, Some w) \<Rightarrow> Some (((x * 16 + y) * 16 + z) * 16 + w)
      | _ \<Rightarrow> None)"

text \<open>The character that follows a backslash, other than \<open>u\<close>.\<close>

definition unescape :: "nat \<Rightarrow> nat option" where
  "unescape e =
     (if e = 34 then Some 34 else if e = 92 then Some 92 else if e = 47 then Some 47
      else if e = 98 then Some 8 else if e = 102 then Some 12 else if e = 110 then Some 10
      else if e = 114 then Some 13 else if e = 116 then Some 9 else None)"

text \<open>
  A low surrogate escape \<open>\uDC00\<close> .. \<open>\uDFFF\<close> at the front of the text; it takes six
  characters.
\<close>

definition low_surrogate :: "pystr \<Rightarrow> nat option" where
  "low_surrogate s =
     (case s of
        b # u # a2 # b2 # c2 # d2 # rest \<Rightarrow>
          if b = 92 \<and> u = 117
          then (case hex4 a2 b2 c2 d2 of
                  Some lo \<Rightarrow> if 56320 \<le> lo \<and> lo \<le> 57343 then Some lo else None
                | None \<Rightarrow> None)
          else None
      | _ \<Rightarrow> None)"

text \<open>The text after an opening quote: the string up to the closing quote, and the rest.\<close>

fun scan_string :: "pystr \<Rightarrow> (pystr \<times> pystr) option" where
  "scan_string [] = None"
| "scan_string (c # cs) =
     (if c = 34 then Some ([], cs)
      else if c = 92 then
        (case cs of
           [] \<Rightarrow> None
         | e # es \<Rightarrow>
             if e = 117 then
               (case es of
                  a # b # c1 # d # rest \<Rightarrow>
                    (case hex4 a b c1 d of
                       None \<Rightarrow> None
                     | Some hi \<Rightarrow>
                         (case (if 55296 \<le> hi \<and> hi \<le> 56319 then low_surrogate rest else None) of
                            Some lo \<Rightarrow>
                              map_option (\<lambda>(t, r). ((65536 + (hi - 55296) * 1024 + (lo - 56320)) # t, r))
                                (scan_string (drop 6 rest))
                          | None \<Rightarrow> map_option (\<lambda>(t, r). (hi # t, r)) (scan_string rest)))
                | _ \<Rightarrow> None)
             else
               (case unescape e of
                  None \<Rightarrow> None
                | Some ch \<Rightarrow> map_option (\<lambda>(t, r). (ch # t, r)) (scan_string es)))
      else if c < 32 then None
      else map_option (\<lambda>(t, r). (c # t, r)) (scan_string cs))"

definition digits_val :: "pystr \<Rightarrow> nat" where
  "digits_val ds = foldl (\<lambda>a c. 10 * a + (c - 48)) 0 ds"

text \<open>The exponent part \<open>[eE][-+]?[0-9]+\<close> at the front of the text, if there is one.\<close>

definition scan_exp :: "pystr \<Rightarrow> (int \<times> pystr) option" where
  "scan_exp s =
     (case s of
        e # s1 \<Rightarrow>
          if e = 101 \<or> e = 69 then
            (case s1 of
               g # s2 \<Rightarrow>
                 if (g = 45 \<or> g = 43) \<and> s2 \<noteq> [] \<and> is_digit (hd s2)
                 then Some ((if g = 45 then - int (digits_val (takeWhile is_digit s2))
                             else int (digits_val (takeWhile is_digit s2))),
                            dropWhile is_digit s2)
                 else if is_digit g
                 then Some (int (digits_val (takeWhile is_digit s1)), dropWhile is_digit s1)
                 else None
             | [] \<Rightarrow> None)
          else None
      | [] \<Rightarrow> None)"

text \<open>The fraction part \<open>\.[0-9]+\<close> at the front of the text: its digits and the rest.\<close>

definition scan_frac :: "pystr \<Rightarrow> (pystr \<times> pystr) option" where
  "scan_frac s =
     (case s of
        p # q # r \<Rightarrow>
          if p = 46 \<and> is_digit q
          then Some (takeWhile is_digit (q # r), dropWhile is_digit (q # r))
          else None
      | _ \<Rightarrow> None)"

text \<open>The decimal value of a literal with integer digits, fraction digits and exponent.\<close>

definition decimal :: "bool \<Rightarrow> pystr \<Rightarrow> pystr \<Rightarrow> int \<Rightarrow> real" where
  "decimal neg ip fp ex =
     (let m = real (digits_val (ip @ fp)) / 10 ^ length fp;
          v = (if 0 \<le> ex then m * 10 ^ nat ex else m / 10 ^ nat (- ex))
      in if neg then - v else v)"

text \<open>
  \<open>float(literal)\<close>: the conversion rounds to the nearest double, ties to even. A value of
  magnitude at most \<open>2^-1075\<close>, half the smallest positive double, becomes zero; a value
  of magnitude at least \<open>2^1024 - 2^970\<close>, half a unit above the largest double, becomes
  infinite; no exception is raised in either case.
\<close>

definition float_of_decimal :: "real \<Rightarrow> pyfloat" where
  "float_of_decimal x =
     (if \<bar>x\<bar> \<le> 1 / 2 ^ 1075 then Finite 0
      else if 2 ^ 1024 - 2 ^ 970 \<le> \<bar>x\<bar> then (if x < 0 then NegInf else PosInf)
      else Finite x)"

text \<open>
  A number at the front of the text:
  \<open>(-?(?:0|[1-9][0-9]*))(\.[0-9]+)?([eE][-+]?[0-9]+)?\<close>. \<open>None\<close> when the text does not
  start with a number; the conversion of an integer literal of more than 4300 digits
  raises.
\<close>

definition scan_number :: "pystr \<Rightarrow> (exn + json \<times> pystr) option" where
  "scan_number s =
     (let neg = (s \<noteq> [] \<and> hd s = 45);
          s1 = (if neg then tl s else s)
      in case s1 of
           [] \<Rightarrow> None
         | d # ds \<Rightarrow>
             if \<not> is_digit d then None
             else
               let ip = (if d = 48 then [d] else takeWhile is_digit s1);
                   s2 = (if d = 48 then ds else dropWhile is_digit s1);
                   fr = scan_frac s2;
                   fp = (case fr of Some (f, _) \<Rightarrow> f | None \<Rightarrow> []);
                   s3 = (case fr of Some (_, r) \<Rightarrow> r | None \<Rightarrow> s2);
                   ex = scan_exp s3;
                   s4 = (case ex of Some (_, r) \<Rightarrow> r | None \<Rightarrow> s3)
               in if fr = None \<and> ex = None
                  then if drop 4300 ip \<noteq> [] then Some (raise ValueError)
                       else Some (Inr (JInt (if neg then - int (digits_val ip)
                                             else int (digits_val ip)), s4))
                  else Some (Inr (JFloat (float_of_decimal (decimal neg ip fp
                                    (case ex of Some (x, _) \<Rightarrow> x | None \<Rightarrow> 0))), s4)))"

text \<open>A value that is neither a string, an object nor an array.\<close>

definition scan_atom :: "pystr \<Rightarrow> exn + json \<times> pystr" where
  "scan_atom s =
     (if startswith s (lit ''null'') then Inr (JNull, drop 4 s)
      else if startswith s (lit ''true'') then Inr (JBool True, drop 4 s)
      else if startswith s (lit ''false'') then Inr (JBool False, drop 5 s)
      else case scan_number s of
             Some r \<Rightarrow> r
           | None \<Rightarrow>
               if startswith s (lit ''NaN'') then Inr (JFloat NaN, drop 3 s)
               else if startswith s (lit ''Infinity'') then Inr (JFloat PosInf, drop 8 s)
               else if startswith s (lit ''-Infinity'') then Inr (JFloat NegInf, drop 9 s)
               else raise JSONDecodeError)"

text \<open>\<open>d[k] = v\<close> on a dict: a key that is there keeps its place.\<close>

fun dict_set :: "(pystr \<times> json) list \<Rightarrow> pystr \<Rightarrow> json \<Rightarrow> (pystr \<times> json) list" where
  "dict_set [] k v = [(k, v)]"
| "dict_set ((k', v') # kvs) k v =
     (if k' = k then (k, v) # kvs else (k', v') # dict_set kvs k v)"

text \<open>
  \<open>scan_value\<close> reads a value at the front of the text; \<open>scan_elems\<close> the elements of an
  array from the front of an element on, \<open>scan_members\<close> the members of an object from
  the quote of a key on.
\<close>

fun scan_value :: "nat \<Rightarrow> pystr \<Rightarrow> exn + json \<times> pystr"
  and scan_elems :: "nat \<Rightarrow> json list \<Rightarrow> pystr \<Rightarrow> exn + json \<times> pystr"
  and scan_members :: "nat \<Rightarrow> (pystr \<times> json) list \<Rightarrow> pystr \<Rightarrow> exn + json \<times> pystr" where
  "scan_value 0 s = raise JSONDecodeError"
| "scan_value (Suc n) s =
     (case s of
        [] \<Rightarrow> raise JSONDecodeError
      | c # cs \<Rightarrow>
          if c = 34 then
            (case scan_string cs of
               None \<Rightarrow> raise JSONDecodeError
             | Some (t, r) \<Rightarrow> Inr (JStr t, r))
          else if c = 123 then
            (case skip_ws cs of
               [] \<Rightarrow> raise JSONDecodeError
             | d # ds \<Rightarrow> if d = 125 then Inr (JObj [], ds) else scan_members n [] (d # ds))
          else if c = 91 then
            (case skip_ws cs of
               [] \<Rightarrow> raise JSONDecodeError
             | d # ds \<Rightarrow> if d = 93 then Inr (JArr [], ds) else scan_elems n [] (d # ds))
          else scan_atom s)"
| "scan_elems 0 acc s = raise JSONDecodeError"
| "scan_elems (Suc n) acc s =
     (case scan_value n s of
        Inl e \<Rightarrow> Inl e
      | Inr (v, r) \<Rightarrow>
          (case skip_ws r of
             [] \<Rightarrow> raise JSONDecodeError
           | d # ds \<Rightarrow>
               if d = 44 then scan_elems n (acc @ [v]) (skip_ws ds)
               else if d = 93 then Inr (JArr (acc @ [v]), ds)
               else raise JSONDecodeError))"
| "scan_members 0 acc s = raise JSONDecodeError"
| "scan_members (Suc n) acc s =
     (case s of
        [] \<Rightarrow> raise JSONDecodeError
      | q # qs \<Rightarrow>
          if q \<noteq> 34 then raise JSONDecodeError
          else
            (case scan_string qs of
               None \<Rightarrow> raise JSONDecodeError
             | Some (k, r) \<Rightarrow>
                 (case skip_ws r of
                    [] \<Rightarrow> raise JSONDecodeError
                  | col # r2 \<Rightarrow>
                      if col \<noteq> 58 then raise JSONDecodeError
                      else
                        (case scan_value n (skip_ws r2) of
                           Inl e \<Rightarrow> Inl e
                         | Inr (v, r3) \<Rightarrow>
                             (case skip_ws r3 of
                                [] \<Rightarrow> raise JSONDecodeError
                              | d # ds \<Rightarrow>
                                  if d = 44 then scan_members n (dict_set acc k v) (skip_ws ds)
                                  else if d = 125 then Inr (JObj (dict_set acc k v), ds)
                                  else raise JSONDecodeError)))))"

definition json_loads :: loads_fn where
  "json_loads s =
     (case scan_value (Suc (length s)) (skip_ws s) of
        Inl e \<Rightarrow> Inl e
      | Inr (v, r) \<Rightarrow> if skip_ws r = [] then Inr v else raise JSONDecodeError)"

section \<open>Notions used to state the properties\<close>

text \<open>
  The texts that the extractor hands to the parser, in the order of its strategies: the
  span from the first \<open>{\<close> to the last \<open>}\<close>, the repaired span, and the whole trimmed
  text without its fence markers.
\<close>

definition strategies :: "pystr \<Rightarrow> pystr list" where
  "strategies text0 =
     (let text = strip_fences (strip text0)
      in (case search_braces text of
            None \<Rightarrow> []
          | Some m \<Rightarrow> [strip m, repair (strip m)]) @ [text])"

text \<open>
  Trying the texts of a list in order: the first that the parser accepts, parsed; \<open>None\<close>
  when the parser raises \<open>JSONDecodeError\<close> on all; the exception itself when the parser
  raises another one before any text is accepted.
\<close>

fun first_result :: "loads_fn \<Rightarrow> pystr list \<Rightarrow> exn + json" where
  "first_result loads [] = Inr JNull"
| "first_result loads (c # cs) =
     (case loads c of
        Inr v \<Rightarrow> Inr v
      | Inl e \<Rightarrow> if is_JSONDecodeError e then first_result loads cs else Inl e)"

text \<open>The same when every failure counts as a failed step.\<close>

fun first_parse :: "loads_fn \<Rightarrow> pystr list \<Rightarrow> json" where
  "first_parse loads [] = JNull"
| "first_parse loads (c # cs) =
     (case loads c of Inr v \<Rightarrow> v | Inl _ \<Rightarrow> first_parse loads cs)"

text \<open>The events of a run, in the order they are yielded.\<close>

fun yields :: "action list \<Rightarrow> event list" where
  "yields [] = []"
| "yields (Yield ev # acts) = ev # yields acts"
| "yields (CallComplete # acts) = yields acts"
| "yields (CallStream # acts) = yields acts"

fun is_status :: "event \<Rightarrow> bool" where
  "is_status (StatusEvent s m) = True"
| "is_status _ = False"

fun is_terminal :: "event \<Rightarrow> bool" where
  "is_terminal (StatusEvent s m) = False"
| "is_terminal _ = True"

text \<open>The body of a buffered answer whose first choice has the given message content.\<close>

definition completion_body :: "json \<Rightarrow> json" where
  "completion_body content =
     JObj [(lit ''choices'', JArr [JObj [(lit ''message'', JObj [(lit ''content'', content)])]])]"

text \<open>The line that ends the incremental answer, as the loop tests it.\<close>

definition is_done_line :: "raw_line \<Rightarrow> bool" where
  "is_done_line l =
     (case l of
        Inl e \<Rightarrow> False
      | Inr line \<Rightarrow> startswith line (lit ''data: '') \<and> strip line = lit ''data: [DONE]'')"

text \<open>
  What a line adds to the accumulated text: the content of its delta when the line is a
  \<open>data: \<close> line whose payload parses to a fragment with one, and nothing otherwise.
\<close>

definition contribution :: "loads_fn \<Rightarrow> raw_line \<Rightarrow> pystr" where
  "contribution loads l =
     (case l of
        Inl e \<Rightarrow> []
      | Inr line \<Rightarrow>
          if startswith line (lit ''data: '')
          then (case loads (drop 6 line) of
                  Inl e \<Rightarrow> []
                | Inr data \<Rightarrow> (case delta_content data of Inr (Some s) \<Rightarrow> s | _ \<Rightarrow> []))
          else [])"

text \<open>
  A line that the loop gets past: its bytes decode, and when it is a \<open>data: \<close> line its
  payload either is not valid JSON or is a fragment that the lookups of the loop accept.
\<close>

definition tolerated :: "loads_fn \<Rightarrow> raw_line \<Rightarrow> bool" where
  "tolerated loads l =
     (case l of
        Inl e \<Rightarrow> False
      | Inr line \<Rightarrow>
          if line \<noteq> [] \<and> startswith line (lit ''data: '')
          then (case loads (drop 6 line) of
                  Inl e \<Rightarrow> is_JSONDecodeError e
                | Inr data \<Rightarrow> (case delta_content data of Inr r \<Rightarrow> True | Inl e \<Rightarrow> False))
          else True)"

text \<open>The lines that the loop reads: those before the first terminator.\<close>

definition consumed :: "raw_line list \<Rightarrow> raw_line list" where
  "consumed ls = takeWhile (\<lambda>l. \<not> is_done_line l) ls"

text \<open>The loop ends without an exception of the connection: by the terminator or a close.\<close>

definition ends_cleanly :: "raw_line list \<Rightarrow> stream_end \<Rightarrow> bool" where
  "ends_cleanly ls fin \<longleftrightarrow> list_ex is_done_line ls \<or> fin = Closed"


section \<open>Properties\<close>

subsection \<open>Auxiliary facts\<close>

lemma bnd_Inl [simp]: "bnd (Inl e) f = Inl e"
  by (simp add: bnd_def)

lemma bnd_Inr [simp]: "bnd (Inr x) f = f x"
  by (simp add: bnd_def)

lemma bnd_raise [simp]: "bnd (raise c) f = raise c"
  by (simp add: bnd_def raise_def)

lemma extract_first_result:
  "extract_json_from_response loads text = first_result loads (strategies text)"
  by (auto simp: extract_json_from_response_def direct_parse_def strategies_def Let_def
      split: option.splits sum.splits)

lemma first_result_contract:
  assumes "\<And>s e. s \<in> set cs \<Longrightarrow> loads s = Inl e \<Longrightarrow> is_JSONDecodeError e"
  shows "first_result loads cs = Inr (first_parse loads cs)"
  using assms by (induction cs) (auto split: sum.splits)

lemma handle_exception_code:
  "handle_exception (Exn c m) =
     (if c = Timeout
      then ErrorEvent (lit ''Request timeout - please try again'') (lit ''TIMEOUT'')
      else if c = HTTPError \<or> c = ConnectionError \<or> c = OtherRequestException
      then ErrorEvent (lit ''AI service temporarily unavailable'') (lit ''API_ERROR'')
      else ErrorEvent (lit ''Internal server error'') (lit ''INTERNAL_ERROR''))"
  by (simp add: handle_exception_def is_Timeout_def is_RequestException_def)

lemma handle_exception_terminal: "is_terminal (handle_exception e)"
  by (simp add: handle_exception_def)

lemma length_strip: "length (strip s) \<le> length s"
proof -
  have "length (strip s) \<le> length (dropWhile isspace s)"
    unfolding strip_def by (metis length_dropWhile_le length_rev)
  also have "\<dots> \<le> length s" by (rule length_dropWhile_le)
  finally show ?thesis .
qed

lemma map_of_in_keys: "map_of kvs k = Some v \<Longrightarrow> k \<in> fst ` set kvs"
  by (metis map_of_SomeD fst_conv image_eqI)

lemma respond_text_done:
  "respond_text loads py_repr up t = Inr ev \<Longrightarrow> \<exists>d. ev = DoneEvent d"
  by (auto simp: respond_text_def bnd_def split: sum.splits if_splits)

lemma respond_done:
  "respond loads py_repr up v = Inr ev \<Longrightarrow> \<exists>d. ev = DoneEvent d"
  by (cases v) (auto simp: respond_def raise_def dest: respond_text_done)

lemma terminal_respond: "is_terminal (terminal (respond loads py_repr up v))"
  by (cases "respond loads py_repr up v")
     (auto simp: terminal_def handle_exception_terminal dest: respond_done)

lemma terminal_stream:
  "is_terminal (terminal (bnd m (\<lambda>s. respond loads py_repr up (JStr s))))"
  by (cases m) (auto simp: terminal_respond, simp add: terminal_def handle_exception_terminal)

subsection \<open>The conversion of float literals\<close>

text \<open>
  The literal \<open>1e-999\<close> is zero, hence false in a test, and \<open>1e999\<close> is infinite, as in
  CPython; a literal in the range of the doubles stands for its nearest double.
\<close>

lemma float_underflow:
  "float_of_decimal (decimal False (lit ''1'') [] (- 999)) = Finite 0 \<and>
   \<not> truthy (JFloat (float_of_decimal (decimal False (lit ''1'') [] (- 999))))"
  by (simp add: float_of_decimal_def decimal_def digits_val_def lit_def field_simps)

lemma float_overflow:
  "float_of_decimal (decimal False (lit ''1'') [] 999) = PosInf"
  by (simp add: float_of_decimal_def decimal_def digits_val_def lit_def)

lemma float_in_range:
  "float_of_decimal (decimal False (lit ''2'') (lit ''5'') 0) = Finite (5 / 2)"
  by (simp add: float_of_decimal_def decimal_def digits_val_def lit_def)

subsection \<open>Facts on the string operations\<close>


lemma marks_not_space: "\<not> isspace 96" "\<not> isspace 123" "\<not> isspace 125"
  by (simp_all add: isspace_def)


lemma strip_padded:
  assumes "list_all isspace w0" and "list_all isspace w3"
    and "x \<noteq> []" and "\<not> isspace (hd x)" and "\<not> isspace (last x)"
  shows "strip (w0 @ x @ w3) = x"
proof -
  have a: "dropWhile isspace (w0 @ x @ w3) = x @ w3"
  proof -
    have "dropWhile isspace (w0 @ x @ w3) = dropWhile isspace (x @ w3)"
      using assms(1) by (simp add: list_all_iff)
    also have "\<dots> = x @ w3"
      using assms(3,4) by (cases x) auto
    finally show ?thesis .
  qed
  have "dropWhile isspace (rev w3 @ rev x) = dropWhile isspace (rev x)"
    by (rule dropWhile_append2) (use assms(2) in \<open>auto simp: list_all_iff\<close>)
  also have "\<dots> = rev x"
    using assms(3,5) by (cases "rev x") (auto simp: hd_rev [symmetric])
  finally show ?thesis
    by (simp add: strip_def a)
qed

lemma search_braces_object:
  assumes "123 \<notin> set w1" and "125 \<notin> set w2"
  shows "search_braces (w1 @ (123 # body @ [125]) @ w2) = Some (123 # body @ [125])"
proof -
  have d: "dropWhile (\<lambda>c. c \<noteq> 123) (w1 @ 123 # body @ 125 # w2) = 123 # body @ 125 # w2"
    using assms(1) by (simp add: dropWhile_append)
  have "dropWhile (\<lambda>c. c \<noteq> 125) (rev w2 @ 125 # rev body @ [123]) = 125 # rev body @ [123]"
    using assms(2) by (simp add: dropWhile_append)
  then show ?thesis
    by (simp add: search_braces_def d Let_def)
qed









lemma strip_object: "strip (123 # body @ [125]) = 123 # body @ [125]"
  using strip_padded [of "[]" "[]" "123 # body @ [125]"] by (simp add: marks_not_space)

lemma strip_fences_plain: "strip_fences (123 # r) = 123 # r"
  by (simp add: strip_fences_def startswith_def lit_def)

lemma strategies_object:
  "strategies (123 # body @ [125]) =
     [123 # body @ [125], repair (123 # body @ [125]), 123 # body @ [125]]"
  using search_braces_object [of "[]" "[]" body]
  by (simp add: strategies_def strip_object strip_fences_plain Let_def)

subsection \<open>The event sequence\<close>

text \<open>
  Claim C1. For every accepted request the run starts by yielding the \<open>generating\<close>
  status event, before any call to the provider, and the events yielded are one or two
  status events followed by exactly one terminal event (\<open>done\<close> or \<open>error\<close>).
\<close>

theorem event_sequence_shape:
  assumes "validate_request prompt"
  shows "\<exists>rest t. generate_repo loads py_repr P prompt =
             Streaming (Yield status_generating # CallComplete # rest) \<and>
           (yields (Yield status_generating # CallComplete # rest) = [status_generating, t] \<or>
            yields (Yield status_generating # CallComplete # rest) =
              [status_generating, status_processing, t]) \<and>
           is_status status_generating \<and> is_status status_processing \<and> is_terminal t"
  using assms
  by (auto simp: generate_repo_def event_stream_def status_generating_def status_processing_def
      terminal_respond terminal_stream split: sum.splits)

theorem event_sequence_shape_witness:
  "validate_request (lit ''A CLI tool for renaming files in bulk'') \<and>
   (\<exists>rest t. generate_repo json_loads (\<lambda>v. [])
        \<lparr>complete_response = Inl (Exn Timeout []), stream_response = Inl (Exn Timeout [])\<rparr>
        (lit ''A CLI tool for renaming files in bulk'') =
          Streaming (Yield status_generating # CallComplete # rest) \<and>
      (yields (Yield status_generating # CallComplete # rest) = [status_generating, t] \<or>
       yields (Yield status_generating # CallComplete # rest) =
         [status_generating, status_processing, t]) \<and>
      is_status status_generating \<and> is_status status_processing \<and> is_terminal t)"
proof -
  have h: "validate_request (lit ''A CLI tool for renaming files in bulk'')"
    by (simp add: validate_request_def lit_def)
  show ?thesis
    using h event_sequence_shape [OF h, of json_loads "\<lambda>v. []"
        "\<lparr>complete_response = Inl (Exn Timeout []), stream_response = Inl (Exn Timeout [])\<rparr>"]
    by blast
qed

subsection \<open>The strategies of the response extractor\<close>

lemma digits_not_marks:
  "is_digit c \<Longrightarrow> c \<noteq> 34 \<and> c \<noteq> 123 \<and> c \<noteq> 91 \<and> c \<noteq> 45 \<and> c \<noteq> 110 \<and> c \<noteq> 116 \<and> c \<noteq> 102 \<and> \<not> json_ws c"
  by (auto simp: is_digit_def json_ws_def)

lemma scan_number_huge:
  assumes "list_all is_digit ds" and "hd ds \<noteq> 48" and "4300 < length ds"
  shows "scan_number (ds @ [125]) = Some (raise ValueError)"
proof -
  from assms(3) obtain d ds' where ds: "ds = d # ds'" by (cases ds) auto
  from assms(1) have d: "is_digit d" and a: "\<And>x. x \<in> set ds' \<Longrightarrow> is_digit x"
    by (simp_all add: ds list_all_iff)
  have z: "d \<noteq> 48" using assms(2) by (simp add: ds)
  have t: "takeWhile is_digit (ds' @ [125]) = ds'"
    using a by (simp add: is_digit_def)
  have dr: "dropWhile is_digit (ds' @ [125]) = [125]"
    using a by (simp add: is_digit_def)
  have n: "\<not> length ds' \<le> 4299" using assms(3) by (simp add: ds)
  have f: "scan_frac [125] = None" "scan_exp [125] = None"
    by (simp_all add: scan_frac_def scan_exp_def)
  show ?thesis
    unfolding ds using d digits_not_marks [OF d] z
    by (simp add: scan_number_def Let_def t dr n f)
qed

lemma scan_atom_huge:
  assumes "list_all is_digit ds" and "hd ds \<noteq> 48" and "4300 < length ds"
  shows "scan_atom (ds @ [125]) = raise ValueError"
proof -
  from assms(3) obtain d ds' where ds: "ds = d # ds'" by (cases ds) auto
  from assms(1) have d: "is_digit d" by (simp add: ds)
  have "\<not> startswith (ds @ [125]) (lit ''null'')" "\<not> startswith (ds @ [125]) (lit ''true'')"
    "\<not> startswith (ds @ [125]) (lit ''false'')"
    using digits_not_marks [OF d] by (auto simp: ds startswith_def lit_def)
  then show ?thesis
    by (simp add: scan_atom_def scan_number_huge [OF assms])
qed

lemma json_loads_huge:
  assumes "list_all is_digit ds" and "hd ds \<noteq> 48" and "4300 < length ds"
  shows "json_loads (lit ''{\"a\": '' @ ds @ [125]) = Inl (Exn ValueError [])"
proof -
  from assms(3) obtain d ds' where ds: "ds = d # ds'" by (cases ds) auto
  from assms(1) have d: "is_digit d" by (simp add: ds)
  have v: "scan_value (Suc n) (ds @ [125]) = raise ValueError" for n
    using digits_not_marks [OF d] scan_atom_huge [OF assms] by (simp add: ds)
  have w: "dropWhile json_ws (ds @ [125]) = ds @ [125]"
    using digits_not_marks [OF d] by (simp add: ds)
  have m: "scan_members (Suc (Suc n)) [] (34 # 97 # 34 # 58 # 32 # ds @ [125]) = raise ValueError" for n
    by (simp add: skip_ws_def json_ws_def w v raise_def del: scan_value.simps)
  show ?thesis
    by (simp add: json_loads_def lit_def skip_ws_def json_ws_def m raise_def
        del: scan_members.simps)
qed

text \<open>
  Claim C2, as stated, lets no exception leave the extractor. On an object whose value is
  an integer literal of 4301 digits, \<open>json.loads\<close> raises the \<open>ValueError\<close> of the integer
  conversion in the first strategy; it is not a \<open>JSONDecodeError\<close>, no handler of the
  routine catches it, and it leaves the routine.
\<close>

theorem extract_falls_through_counterexample:
  "extract_json_from_response json_loads (lit ''{\"a\": '' @ replicate 4301 49 @ [125]) =
     Inl (Exn ValueError [])"
proof -
  have o: "lit ''{\"a\": '' @ replicate 4301 49 @ [125] =
      123 # (lit ''\"a\": '' @ replicate 4301 49) @ [125]"
    by (simp add: lit_def)
  have h: "list_all is_digit (replicate 4301 49)" "hd (replicate 4301 49) \<noteq> (48::nat)"
    "4300 < length (replicate 4301 (49::nat))"
    by (simp_all add: list_all_iff is_digit_def)
  have "json_loads (lit ''{\"a\": '' @ replicate 4301 49 @ [125]) = Inl (Exn ValueError [])"
    using h by (rule json_loads_huge)
  then have "json_loads (123 # (lit ''\"a\": '' @ replicate 4301 49) @ [125]) = Inl (Exn ValueError [])"
    unfolding o .
  then show ?thesis
    unfolding o extract_first_result strategies_object
    by (simp add: is_JSONDecodeError_def)
qed

text \<open>
  Claim C2, amended. For every input string on which the parser raises nothing but
  \<open>JSONDecodeError\<close> for the texts that the strategies hand to it, the extractor returns a
  parsed value or \<open>None\<close> and no exception leaves it: its result is the first of its
  strategies that parses, tried in order, each failure falling through to the next, and
  \<open>None\<close> (\<open>JNull\<close>) when all fail. An exception of the parser of another class is not
  caught.
\<close>

theorem extract_falls_through:
  assumes "\<And>s e. s \<in> set (strategies text) \<Longrightarrow> loads s = Inl e \<Longrightarrow> is_JSONDecodeError e"
  shows "extract_json_from_response loads text = Inr (first_parse loads (strategies text))"
  using assms unfolding extract_first_result by (rule first_result_contract)

text \<open>
  On a text with a raw newline inside a string the first strategy fails and the repaired
  span parses.
\<close>

theorem extract_falls_through_witness:
  "extract_json_from_response json_loads (lit ''{\"a\": \"x'' @ [10] @ lit ''y\"}'') =
     Inr (JObj [(lit ''a'', JStr [120, 10, 121])])"
proof -
  let ?t = "lit ''{\"a\": \"x'' @ [10] @ lit ''y\"}''"
  let ?r = "lit ''{\"a\": \"x'' @ [92, 110] @ lit ''y\"}''"
  have s: "strategies ?t = [?t, ?r, ?t]"
    by (simp add: strategies_def strip_def isspace_def lit_def strip_fences_def startswith_def
        search_braces_def repair_def Let_def)
  have p1: "json_loads ?t = Inl (Exn JSONDecodeError [])"
    by code_simp
  have p2: "json_loads ?r = Inr (JObj [(lit ''a'', JStr [120, 10, 121])])"
    by code_simp
  have c: "is_JSONDecodeError e" if "s \<in> set (strategies ?t)" and "json_loads s = Inl e" for s e
    using that p1 p2 unfolding s by (auto simp: is_JSONDecodeError_def)
  have "first_parse json_loads (strategies ?t) = JObj [(lit ''a'', JStr [120, 10, 121])]"
    unfolding s by (simp only: first_parse.simps p1 p2 sum.case)
  then show ?thesis
    using extract_falls_through [of ?t json_loads, OF c] by simp
qed

subsection \<open>The retry in incremental mode\<close>

text \<open>
  Claim C7. The buffered call is made first. When it raises, or when reading the content
  out of its body raises, the exception is dropped, the second status event is yielded and
  the incremental call is made once; the terminal event then comes from that call alone:
  from its exception when it raises, from its text otherwise.
\<close>

theorem retry_in_incremental_mode:
  assumes "complete_response P = Inl e \<or>
           (\<exists>body. complete_response P = Inr body \<and> message_content body = Inl e)"
  shows "event_stream loads py_repr P user_prompt =
           [Yield status_generating, CallComplete, Yield status_processing, CallStream,
            Yield (case query_groq_stream loads P of
                     Inl e' \<Rightarrow> handle_exception e'
                   | Inr full_response \<Rightarrow>
                       terminal (respond loads py_repr user_prompt (JStr full_response)))]"
  using assms
  by (auto simp: event_stream_def query_groq_complete_def terminal_def split: sum.splits)

theorem retry_in_incremental_mode_witness:
  "event_stream json_loads (\<lambda>v. [])
     \<lparr>complete_response = Inr (JObj [(lit ''error'', JStr (lit ''busy''))]),
      stream_response = Inl (Exn HTTPError (lit ''503''))\<rparr>
     (lit ''A CLI tool for renaming files in bulk'') =
   [Yield status_generating, CallComplete, Yield status_processing, CallStream,
    Yield (ErrorEvent (lit ''AI service temporarily unavailable'') (lit ''API_ERROR''))]"
proof -
  let ?P = "\<lparr>complete_response = Inr (JObj [(lit ''error'', JStr (lit ''busy''))]),
      stream_response = Inl (Exn HTTPError (lit ''503''))\<rparr>"
  have m: "message_content (JObj [(lit ''error'', JStr (lit ''busy''))]) = Inl (Exn KeyError [])"
    by (simp add: message_content_def lit_def raise_def)
  have h: "complete_response ?P = Inl (Exn KeyError []) \<or>
           (\<exists>body. complete_response ?P = Inr body \<and> message_content body = Inl (Exn KeyError []))"
    using m by simp
  have q: "query_groq_stream json_loads ?P = Inl (Exn HTTPError (lit ''503''))"
    by (simp add: query_groq_stream_def)
  show ?thesis
    using retry_in_incremental_mode [OF h, of json_loads "\<lambda>v. []"]
    by (simp add: q handle_exception_def is_Timeout_def is_RequestException_def)
qed

subsection \<open>The codes of the error events\<close>

text \<open>
  Claim C8, as stated, makes a timeout anywhere in the two calls decisive. The buffered
  call times out, the incremental call fails to connect: both modes are exhausted, a
  timeout has occurred, and the code of the terminal event is \<open>API_ERROR\<close>.
\<close>

theorem error_code_follows_last_exception_counterexample:
  "event_stream json_loads (\<lambda>v. [])
     \<lparr>complete_response = Inl (Exn Timeout []), stream_response = Inl (Exn ConnectionError [])\<rparr>
     (lit ''A CLI tool for renaming files in bulk'') =
   [Yield status_generating, CallComplete, Yield status_processing, CallStream,
    Yield (ErrorEvent (lit ''AI service temporarily unavailable'') (lit ''API_ERROR''))]"
  by (simp add: event_stream_def query_groq_complete_def query_groq_stream_def terminal_def
      handle_exception_code)

text \<open>
  Claim C8, amended. When the buffered call has failed, the exception that the incremental
  call raises decides the terminal event alone: a timeout gives the code \<open>TIMEOUT\<close>,
  any other request exception \<open>API_ERROR\<close>, any other exception \<open>INTERNAL_ERROR\<close>. The
  same holds for an exception that reaches the handlers from any later step. The event
  depends on the class of the exception only; its message text is in no field.
\<close>

theorem error_code_follows_last_exception:
  assumes "bnd (query_groq_complete P) message_content = Inl e1"
    and "query_groq_stream loads P = Inl (Exn c m)"
  shows "event_stream loads py_repr P user_prompt =
           [Yield status_generating, CallComplete, Yield status_processing, CallStream,
            Yield (if c = Timeout
                   then ErrorEvent (lit ''Request timeout - please try again'') (lit ''TIMEOUT'')
                   else if c = HTTPError \<or> c = ConnectionError \<or> c = OtherRequestException
                   then ErrorEvent (lit ''AI service temporarily unavailable'') (lit ''API_ERROR'')
                   else ErrorEvent (lit ''Internal server error'') (lit ''INTERNAL_ERROR''))] \<and>
         terminal (Inl (Exn c m)) =
           (if c = Timeout
            then ErrorEvent (lit ''Request timeout - please try again'') (lit ''TIMEOUT'')
            else if c = HTTPError \<or> c = ConnectionError \<or> c = OtherRequestException
            then ErrorEvent (lit ''AI service temporarily unavailable'') (lit ''API_ERROR'')
            else ErrorEvent (lit ''Internal server error'') (lit ''INTERNAL_ERROR''))"
  using assms
  by (simp add: event_stream_def terminal_def handle_exception_code)

theorem error_code_follows_last_exception_witness:
  "event_stream json_loads (\<lambda>v. [])
     \<lparr>complete_response = Inl (Exn HTTPError (lit ''500'')),
      stream_response = Inl (Exn Timeout (lit ''read timed out''))\<rparr>
     (lit ''A CLI tool for renaming files in bulk'') =
   [Yield status_generating, CallComplete, Yield status_processing, CallStream,
    Yield (ErrorEvent (lit ''Request timeout - please try again'') (lit ''TIMEOUT''))] \<and>
   terminal (Inl (Exn Timeout (lit ''read timed out''))) =
     ErrorEvent (lit ''Request timeout - please try again'') (lit ''TIMEOUT'')"
proof -
  let ?P = "\<lparr>complete_response = Inl (Exn HTTPError (lit ''500'')),
      stream_response = Inl (Exn Timeout (lit ''read timed out''))\<rparr>"
  have h1: "bnd (query_groq_complete ?P) message_content = Inl (Exn HTTPError (lit ''500''))"
    by (simp add: query_groq_complete_def)
  have h2: "query_groq_stream json_loads ?P = Inl (Exn Timeout (lit ''read timed out''))"
    by (simp add: query_groq_stream_def)
  show ?thesis
    using error_code_follows_last_exception [OF h1 h2, of "\<lambda>v. []"] by simp
qed

subsection \<open>Request validation\<close>

text \<open>
  Claim C4, as stated, measures the prompt after trimming. A prompt of five spaces is
  accepted, and what is left of it after trimming is empty.
\<close>

theorem validation_before_trim_counterexample:
  "validate_request (lit ''     '') \<and> length (strip (lit ''     '')) = 0"
  by (simp add: validate_request_def strip_def isspace_def lit_def)

text \<open>
  Claim C4, amended. A request is accepted if and only if its prompt, as sent, has between
  5 and 500 characters; a request that is not is answered by the validation error, with no
  event and no call. An accepted prompt is trimmed afterwards, so the orchestrator runs on a
  prompt of at most 500 characters, with no lower bound.
\<close>

theorem validation_before_trim:
  "(generate_repo loads py_repr P prompt = ValidationError) =
     (length prompt < 5 \<or> 500 < length prompt) \<and>
   (generate_repo loads py_repr P prompt =
      Streaming (event_stream loads py_repr P (strip prompt))) =
     (5 \<le> length prompt \<and> length prompt \<le> 500) \<and>
   length (strip prompt) \<le> length prompt"
  by (auto simp: generate_repo_def validate_request_def length_strip)

theorem validation_before_trim_witness:
  "generate_repo json_loads (\<lambda>v. [])
     \<lparr>complete_response = Inl (Exn Timeout []), stream_response = Inl (Exn Timeout [])\<rparr>
     (lit ''x'') = ValidationError \<and>
   generate_repo json_loads (\<lambda>v. [])
     \<lparr>complete_response = Inl (Exn Timeout []), stream_response = Inl (Exn Timeout [])\<rparr>
     (lit ''  a todo app  '') =
   Streaming (event_stream json_loads (\<lambda>v. [])
     \<lparr>complete_response = Inl (Exn Timeout []), stream_response = Inl (Exn Timeout [])\<rparr>
     (lit ''a todo app''))"
proof -
  let ?P = "\<lparr>complete_response = Inl (Exn Timeout []), stream_response = Inl (Exn Timeout [])\<rparr>"
  have s: "strip (lit ''  a todo app  '') = lit ''a todo app''"
    by (simp add: strip_def isspace_def lit_def)
  have l1: "length (lit ''x'') < 5" by (simp add: lit_def)
  have l2: "5 \<le> length (lit ''  a todo app  '') \<and> length (lit ''  a todo app  '') \<le> 500"
    by (simp add: lit_def)
  show ?thesis
    using validation_before_trim [of json_loads "\<lambda>v. []" ?P "lit ''x''"]
      validation_before_trim [of json_loads "\<lambda>v. []" ?P "lit ''  a todo app  ''"] l1 l2
    unfolding s by blast
qed

subsection \<open>The cleaned artifact\<close>

text \<open>
  Claim C5. When the extractor returns a dict with the three keys, the terminal event is
  \<open>done\<close> with the three fields, none dropped: each is the string of its value, trimmed,
  the name then cut to 50 characters and the description to 200. No field is longer than
  the string it comes from.
\<close>

theorem cleaned_artifact:
  assumes "extract_json_from_response loads text = Inr (JObj kvs)"
    and "map_of kvs (lit ''repository_name'') = Some n"
    and "map_of kvs (lit ''description'') = Some d"
    and "map_of kvs (lit ''readme_content'') = Some r"
  shows "respond_text loads py_repr user_prompt text =
           Inr (DoneEvent
             [(lit ''repository_name'', take 50 (strip (py_str py_repr n))),
              (lit ''description'', take 200 (strip (py_str py_repr d))),
              (lit ''readme_content'', strip (py_str py_repr r))]) \<and>
         length (take 50 (strip (py_str py_repr n))) \<le> 50 \<and>
         length (take 200 (strip (py_str py_repr d))) \<le> 200 \<and>
         length (take 50 (strip (py_str py_repr n))) \<le> length (py_str py_repr n) \<and>
         length (take 200 (strip (py_str py_repr d))) \<le> length (py_str py_repr d) \<and>
         length (strip (py_str py_repr r)) \<le> length (py_str py_repr r)"
proof -
  have ne: "kvs \<noteq> []" using assms(2) by auto
  have v: "is_valid (JObj kvs) = Inr True"
    using assms(2-4) ne by (simp add: is_valid_def required_keys_def map_of_in_keys)
  have c: "clean_data py_repr (JObj kvs) =
         Inr [(lit ''repository_name'', take 50 (strip (py_str py_repr n))),
              (lit ''description'', take 200 (strip (py_str py_repr d))),
              (lit ''readme_content'', strip (py_str py_repr r))]"
    using assms(2-4) by (simp add: clean_data_def clean_field_def)
  have "respond_text loads py_repr user_prompt text =
           Inr (DoneEvent
             [(lit ''repository_name'', take 50 (strip (py_str py_repr n))),
              (lit ''description'', take 200 (strip (py_str py_repr d))),
              (lit ''readme_content'', strip (py_str py_repr r))])"
    by (simp add: respond_text_def assms(1) v c)
  moreover have "length (take 50 (strip (py_str py_repr n))) \<le> length (py_str py_repr n)"
    using length_strip [of "py_str py_repr n"] by simp
  moreover have "length (take 200 (strip (py_str py_repr d))) \<le> length (py_str py_repr d)"
    using length_strip [of "py_str py_repr d"] by simp
  ultimately show ?thesis by (simp add: length_strip)
qed

theorem cleaned_artifact_witness:
  "respond_text json_loads (\<lambda>v. []) (lit ''a file renamer'')
     (lit ''```json'' @ [10] @
      lit ''{\"repository_name\":\"foo\",\"description\":\"d\",\"readme_content\":\"# R\"}'' @
      [10] @ lit ''```'') =
   Inr (DoneEvent [(lit ''repository_name'', lit ''foo''), (lit ''description'', lit ''d''),
                   (lit ''readme_content'', lit ''# R'')])"
proof -
  let ?o = "lit ''{\"repository_name\":\"foo\",\"description\":\"d\",\"readme_content\":\"# R\"}''"
  let ?t = "lit ''```json'' @ [10] @ ?o @ [10] @ lit ''```''"
  let ?kvs = "[(lit ''repository_name'', JStr (lit ''foo'')), (lit ''description'', JStr (lit ''d'')),
               (lit ''readme_content'', JStr (lit ''# R''))]"
  have s: "strategies ?t = [?o, ?o, [10] @ ?o @ [10]]"
    by (simp add: strategies_def strip_def isspace_def lit_def strip_fences_def startswith_def
        search_braces_def repair_def Let_def)
  have p: "json_loads ?o = Inr (JObj ?kvs)"
    by code_simp
  have e: "extract_json_from_response json_loads ?t = Inr (JObj ?kvs)"
    unfolding extract_first_result s by (simp only: first_result.simps p sum.case)
  have m1: "map_of ?kvs (lit ''repository_name'') = Some (JStr (lit ''foo''))"
    by (simp add: lit_def)
  have m2: "map_of ?kvs (lit ''description'') = Some (JStr (lit ''d''))"
    by (simp add: lit_def)
  have m3: "map_of ?kvs (lit ''readme_content'') = Some (JStr (lit ''# R''))"
    by (simp add: lit_def)
  have c: "take 50 (strip (lit ''foo'')) = lit ''foo''" "take 200 (strip (lit ''d'')) = lit ''d''"
    "strip (lit ''# R'') = lit ''# R''"
    by (simp_all add: strip_def isspace_def lit_def)
  show ?thesis
    using cleaned_artifact [OF e m1 m2 m3, of "\<lambda>v. []" "lit ''a file renamer''"]
    by (simp add: py_str_def c)
qed

subsection \<open>Model output that is not an object\<close>

text \<open>
  Claim C3 says that a parsed value which is not a valid artifact ends in a \<open>done\<close> event
  with the fallback. For the completion text \<open>42\<close> the extractor returns the integer 42;
  the test \<open>key in parsed_json\<close> raises a \<open>TypeError\<close> on it, and the run ends in the
  error event with the code \<open>INTERNAL_ERROR\<close>.
\<close>

theorem scalar_output_ends_in_error:
  "extract_json_from_response json_loads (lit ''42'') = Inr (JInt 42) \<and>
   is_valid (JInt 42) = Inl (Exn TypeError []) \<and>
   event_stream json_loads py_repr
     \<lparr>complete_response = Inr (completion_body (JStr (lit ''42''))), stream_response = sr\<rparr>
     user_prompt =
   [Yield status_generating, CallComplete,
    Yield (ErrorEvent (lit ''Internal server error'') (lit ''INTERNAL_ERROR''))]"
proof -
  have s: "strategies (lit ''42'') = [lit ''42'']"
    by (simp add: strategies_def strip_def isspace_def lit_def strip_fences_def startswith_def
        search_braces_def Let_def)
  have p: "json_loads (lit ''42'') = Inr (JInt 42)"
    by code_simp
  have e: "extract_json_from_response json_loads (lit ''42'') = Inr (JInt 42)"
    unfolding extract_first_result s by (simp only: first_result.simps p sum.case)
  have v: "is_valid (JInt 42) = Inl (Exn TypeError [])"
    by (simp add: is_valid_def required_keys_def raise_def)
  have m: "message_content (completion_body (JStr (lit ''42''))) = Inr (JStr (lit ''42''))"
    by (simp add: message_content_def completion_body_def lit_def)
  have r: "respond json_loads py_repr user_prompt (JStr (lit ''42'')) = Inl (Exn TypeError [])"
    by (simp add: respond_def respond_text_def e v)
  show ?thesis
    by (simp add: e v event_stream_def query_groq_complete_def m r terminal_def
        handle_exception_code)
qed

subsection \<open>The incremental client\<close>

lemma startswith_nonempty: "startswith line (lit ''data: '') \<Longrightarrow> line \<noteq> []"
  by (auto simp: startswith_def lit_def)

lemma accumulate_done:
  "is_done_line l \<Longrightarrow> accumulate loads acc (l # ls) fin = Inr acc"
  by (cases l) (auto simp: is_done_line_def dest: startswith_nonempty)

lemma accumulate_step:
  assumes "\<not> is_done_line l" and "tolerated loads l"
  shows "accumulate loads acc (l # ls) fin = accumulate loads (acc @ contribution loads l) ls fin"
proof (cases l)
  case (Inl e)
  with assms(2) show ?thesis by (simp add: tolerated_def)
next
  case (Inr line)
  show ?thesis
  proof (cases "line \<noteq> [] \<and> startswith line (lit ''data: '')")
    case False
    then show ?thesis using Inr
      by (auto simp: contribution_def dest: startswith_nonempty)
  next
    case True
    then have nd: "strip line \<noteq> lit ''data: [DONE]''"
      using assms(1) Inr by (simp add: is_done_line_def)
    show ?thesis
      using True nd assms(2) Inr
      by (auto simp: contribution_def tolerated_def split: sum.splits option.splits)
  qed
qed

lemma accumulate_tolerated:
  assumes "list_all (tolerated loads) (consumed ls)" and "ends_cleanly ls fin"
  shows "accumulate loads acc ls fin = Inr (acc @ concat (map (contribution loads) (consumed ls)))"
  using assms
proof (induction ls arbitrary: acc)
  case Nil
  then show ?case by (simp add: consumed_def ends_cleanly_def)
next
  case (Cons l ls)
  show ?case
  proof (cases "is_done_line l")
    case True
    then show ?thesis by (simp add: accumulate_done consumed_def)
  next
    case False
    then have c: "consumed (l # ls) = l # consumed ls" by (simp add: consumed_def)
    from Cons.prems False have t: "tolerated loads l" and ts: "list_all (tolerated loads) (consumed ls)"
      and e: "ends_cleanly ls fin"
      by (simp_all add: c ends_cleanly_def)
    show ?thesis
      using Cons.IH [OF ts e] False t by (simp add: accumulate_step c)
  qed
qed

lemma respond_text_fallback:
  assumes "extract_json_from_response loads text = Inr v" and "is_valid v = Inr False"
  shows "respond_text loads py_repr up text = Inr (DoneEvent (fallback_response up text))"
  using assms by (simp add: respond_text_def)

lemma extract_empty:
  assumes "loads [] = Inl e" and "is_JSONDecodeError e"
  shows "extract_json_from_response loads [] = Inr JNull"
  using assms
  by (simp add: extract_json_from_response_def strip_def strip_fences_def startswith_def lit_def
      search_braces_def direct_parse_def)

text \<open>
  Claim C9, as stated, lets the loop skip any malformed line. A line whose payload is the
  JSON value \<open>null\<close> is not a fragment; \<open>'choices' in data\<close> raises a \<open>TypeError\<close> on it,
  which \<open>except json.JSONDecodeError\<close> does not catch: the call raises and the content
  accumulated from the line before is lost.
\<close>

theorem stream_accumulates_in_order_counterexample:
  "query_groq_stream json_loads
     \<lparr>complete_response = Inl (Exn Timeout []),
      stream_response = Inr ([Inr (lit ''data: {\"choices\":[{\"delta\":{\"content\":\"Hi\"}}]}'')],
                             Closed)\<rparr> = Inr (lit ''Hi'') \<and>
   query_groq_stream json_loads
     \<lparr>complete_response = Inl (Exn Timeout []),
      stream_response = Inr ([Inr (lit ''data: {\"choices\":[{\"delta\":{\"content\":\"Hi\"}}]}''),
                              Inr (lit ''data: null'')],
                             Closed)\<rparr> = Inl (Exn TypeError [])"
proof -
  have j1: "json_loads (drop 6 (lit ''data: {\"choices\":[{\"delta\":{\"content\":\"Hi\"}}]}'')) =
      Inr (JObj [(lit ''choices'', JArr [JObj [(lit ''delta'', JObj [(lit ''content'', JStr (lit ''Hi''))])]])])"
    by code_simp
  have j2: "json_loads (drop 6 (lit ''data: null'')) = Inr JNull"
    by code_simp
  have d1: "delta_content (JObj [(lit ''choices'', JArr [JObj [(lit ''delta'', JObj [(lit ''content'', JStr (lit ''Hi''))])]])]) =
      Inr (Some (lit ''Hi''))"
    by (simp add: delta_content_def lit_def)
  have d2: "delta_content JNull = Inl (Exn TypeError [])"
    by (simp add: delta_content_def raise_def)
  note j1' = j1 [unfolded lit_def, simplified]
  note j2' = j2 [unfolded lit_def, simplified]
  note d1' = d1 [unfolded lit_def, simplified]
  show ?thesis
    by (simp add: query_groq_stream_def startswith_def strip_def isspace_def lit_def
        j1' j2' d1' d2 is_JSONDecodeError_def)
qed

text \<open>
  Claim C9, amended. The client reads the lines in arrival order up to the terminator or
  the close of the connection and returns the concatenation of the content deltas of the
  fragments read. A line that is empty, that lacks the \<open>data: \<close> prefix or whose payload
  is not valid JSON is skipped, and what was accumulated before it is kept. This holds when
  every line read decodes and every payload that is valid JSON is a fragment on which the
  lookups of the loop succeed; the loop ends without an exception when the terminator
  arrives or the connection closes normally.
\<close>

theorem stream_accumulates_in_order:
  assumes "stream_response P = Inr (ls, fin)"
    and "list_all (tolerated loads) (consumed ls)"
    and "ends_cleanly ls fin"
  shows "query_groq_stream loads P = Inr (concat (map (contribution loads) (consumed ls))) \<and>
         accumulate loads acc ls fin = Inr (acc @ concat (map (contribution loads) (consumed ls)))"
  using assms accumulate_tolerated [of loads ls fin]
  by (simp add: query_groq_stream_def)

theorem stream_accumulates_in_order_witness:
  "query_groq_stream json_loads
     \<lparr>complete_response = Inl (Exn Timeout []),
      stream_response =
        Inr ([Inr (lit ''data: {\"choices\":[{\"delta\":{\"content\":\"Hel\"}}]}''),
              Inr (lit ''data: {\"choices\":[{\"delta\"''),
              Inr (lit '': keep-alive''),
              Inr [],
              Inr (lit ''data: {\"choices\":[{\"delta\":{\"content\":\"lo\"}}]}''),
              Inr (lit ''data: [DONE]''),
              Inr (lit ''data: {\"choices\":[{\"delta\":{\"content\":\"!\"}}]}'')],
             Aborted (Exn ConnectionError []))\<rparr> = Inr (lit ''Hello'')"
proof -
  let ?l1 = "lit ''data: {\"choices\":[{\"delta\":{\"content\":\"Hel\"}}]}''"
  let ?l2 = "lit ''data: {\"choices\":[{\"delta\"''"
  let ?l3 = "lit '': keep-alive''"
  let ?l5 = "lit ''data: {\"choices\":[{\"delta\":{\"content\":\"lo\"}}]}''"
  let ?l6 = "lit ''data: [DONE]''"
  let ?l7 = "lit ''data: {\"choices\":[{\"delta\":{\"content\":\"!\"}}]}''"
  let ?ls = "[Inr ?l1, Inr ?l2, Inr ?l3, Inr [], Inr ?l5, Inr ?l6, Inr ?l7] :: raw_line list"
  let ?P = "\<lparr>complete_response = Inl (Exn Timeout []),
      stream_response = Inr (?ls, Aborted (Exn ConnectionError []))\<rparr>"
  have j1: "json_loads (drop 6 ?l1) =
      Inr (JObj [(lit ''choices'', JArr [JObj [(lit ''delta'', JObj [(lit ''content'', JStr (lit ''Hel''))])]])])"
    by code_simp
  have j2: "json_loads (drop 6 ?l2) = Inl (Exn JSONDecodeError [])"
    by code_simp
  have j5: "json_loads (drop 6 ?l5) =
      Inr (JObj [(lit ''choices'', JArr [JObj [(lit ''delta'', JObj [(lit ''content'', JStr (lit ''lo''))])]])])"
    by code_simp
  have d: "\<And>s. delta_content (JObj [(lit ''choices'', JArr [JObj [(lit ''delta'', JObj [(lit ''content'', JStr s)])]])]) =
      Inr (Some s)"
    by (simp add: delta_content_def lit_def)
  note j1' = j1 [unfolded lit_def, simplified]
  note j2' = j2 [unfolded lit_def, simplified]
  note j5' = j5 [unfolded lit_def, simplified]
  note d' = d [unfolded lit_def, simplified]
  have dl: "\<not> is_done_line (Inr ?l1)" "\<not> is_done_line (Inr ?l2)" "\<not> is_done_line (Inr ?l3)"
    "\<not> is_done_line (Inr [])" "\<not> is_done_line (Inr ?l5)" "is_done_line (Inr ?l6)"
    by (simp_all add: is_done_line_def startswith_def strip_def isspace_def lit_def)
  have c: "consumed ?ls = [Inr ?l1, Inr ?l2, Inr ?l3, Inr [], Inr ?l5]"
    unfolding consumed_def using dl by simp
  have t: "list_all (tolerated json_loads) (consumed ?ls)"
    unfolding c
    by (simp add: tolerated_def startswith_def lit_def j1' j2' j5' d' is_JSONDecodeError_def)
  have k: "concat (map (contribution json_loads) (consumed ?ls)) = lit ''Hello''"
    unfolding c
    by (simp add: contribution_def startswith_def lit_def j1' j2' j5' d')
  have e: "ends_cleanly ?ls (Aborted (Exn ConnectionError []))"
    unfolding ends_cleanly_def using dl by simp
  have r: "stream_response ?P = Inr (?ls, Aborted (Exn ConnectionError []))"
    by simp
  show ?thesis
    using stream_accumulates_in_order [OF r t e] unfolding k by simp
qed

text \<open>
  Claim C10, as stated, covers every stream that yields no content delta. The stream whose
  only line is \<open>data: null\<close> yields none; \<open>'choices' in data\<close> raises a \<open>TypeError\<close> on
  it, the incremental call raises, and the request whose buffered call failed ends in the
  error event with the code \<open>INTERNAL_ERROR\<close>.
\<close>

theorem empty_stream_falls_back_counterexample:
  "contribution json_loads (Inr (lit ''data: null'')) = [] \<and>
   query_groq_stream json_loads
     \<lparr>complete_response = Inl (Exn ConnectionError []),
      stream_response = Inr ([Inr (lit ''data: null'')], Closed)\<rparr> = Inl (Exn TypeError []) \<and>
   event_stream json_loads (\<lambda>v. [])
     \<lparr>complete_response = Inl (Exn ConnectionError []),
      stream_response = Inr ([Inr (lit ''data: null'')], Closed)\<rparr>
     (lit ''a todo app'') =
   [Yield status_generating, CallComplete, Yield status_processing, CallStream,
    Yield (ErrorEvent (lit ''Internal server error'') (lit ''INTERNAL_ERROR''))]"
proof -
  let ?P = "\<lparr>complete_response = Inl (Exn ConnectionError []),
      stream_response = Inr ([Inr (lit ''data: null'')], Closed)\<rparr>"
  have j: "json_loads (drop 6 (lit ''data: null'')) = Inr JNull"
    by code_simp
  have d: "delta_content JNull = Inl (Exn TypeError [])"
    by (simp add: delta_content_def raise_def)
  note j' = j [unfolded lit_def, simplified]
  have c: "contribution json_loads (Inr (lit ''data: null'')) = []"
    by (simp add: contribution_def startswith_def lit_def j' d)
  have q: "query_groq_stream json_loads ?P = Inl (Exn TypeError [])"
    by (simp add: query_groq_stream_def startswith_def strip_def isspace_def lit_def j' d
        is_JSONDecodeError_def)
  have "event_stream json_loads (\<lambda>v. []) ?P (lit ''a todo app'') =
      [Yield status_generating, CallComplete, Yield status_processing, CallStream,
       Yield (ErrorEvent (lit ''Internal server error'') (lit ''INTERNAL_ERROR''))]"
    by (simp add: event_stream_def query_groq_complete_def q terminal_def handle_exception_code)
  with c q show ?thesis by simp
qed

text \<open>
  Claim C10, amended. When every line read before the terminator or the normal close of
  the connection is one that the loop gets past (it is empty, lacks the \<open>data: \<close> prefix,
  has a payload that is not valid JSON, or is a fragment on which the lookups of the loop
  succeed) and none of them adds a content delta, as when the connection closes at once or
  only the terminator arrives, the incremental call returns the empty string and does not
  raise. \<open>json.loads\<close> raising \<open>JSONDecodeError\<close> on the empty text, a request whose
  buffered call failed then ends in the \<open>done\<close> event, not in an error event, with the
  fallback artifact: the generic name and description, the README that embeds the prompt
  of the user, an empty \<open>raw_response\<close> and the note.
\<close>

theorem empty_stream_falls_back:
  assumes "bnd (query_groq_complete P) message_content = Inl e1"
    and "stream_response P = Inr (ls, fin)"
    and "list_all (tolerated loads) (consumed ls)"
    and "ends_cleanly ls fin"
    and "concat (map (contribution loads) (consumed ls)) = []"
    and "loads [] = Inl e0" and "is_JSONDecodeError e0"
  shows "query_groq_stream loads P = Inr [] \<and>
         event_stream loads py_repr P user_prompt =
           [Yield status_generating, CallComplete, Yield status_processing, CallStream,
            Yield (DoneEvent
              [(lit ''repository_name'', lit ''ai-generated-project''),
               (lit ''description'', lit ''AI-generated project based on user requirements''),
               (lit ''readme_content'', fallback_readme user_prompt),
               (lit ''raw_response'', []),
               (lit ''note'', lit ''Fallback response due to JSON parsing issues'')])] \<and>
         (\<exists>rest. fallback_readme user_prompt =
            lit ''# AI Generated Project '' @ [128640, 92, 110, 92, 110] @
            lit ''This project was generated based on: '' @ user_prompt @ rest) \<and>
         lit ''Fallback response due to JSON parsing issues'' \<noteq> []"
proof -
  have q: "query_groq_stream loads P = Inr []"
    using assms(2-5) accumulate_tolerated [of loads ls fin "[]"]
    by (simp add: query_groq_stream_def)
  have r: "respond loads py_repr user_prompt (JStr []) =
             Inr (DoneEvent (fallback_response user_prompt []))"
  proof -
    have x: "extract_json_from_response loads [] = Inr JNull"
      using assms(6,7) by (rule extract_empty)
    have v: "is_valid JNull = Inr False" by (simp add: is_valid_def)
    show ?thesis
      using respond_text_fallback [OF x v, of py_repr user_prompt] by (simp add: respond_def)
  qed
  have m: "\<exists>rest. fallback_readme user_prompt =
            lit ''# AI Generated Project '' @ [128640, 92, 110, 92, 110] @
            lit ''This project was generated based on: '' @ user_prompt @ rest"
    by (simp add: fallback_readme_def bsn_def)
  have n: "lit ''Fallback response due to JSON parsing issues'' \<noteq> []"
    by (simp add: lit_def)
  have "event_stream loads py_repr P user_prompt =
           [Yield status_generating, CallComplete, Yield status_processing, CallStream,
            Yield (DoneEvent (fallback_response user_prompt []))]"
    using assms(1) q r by (simp add: event_stream_def terminal_def)
  then show ?thesis
    using q m n by (simp add: fallback_response_def)
qed

text \<open>The two examples of the claim: only the terminator arrives; the connection closes at once.\<close>

theorem empty_stream_falls_back_witness:
  "event_stream json_loads (\<lambda>v. [])
     \<lparr>complete_response = Inl (Exn ConnectionError []),
      stream_response = Inr ([Inr (lit ''data: [DONE]'')], Closed)\<rparr>
     (lit ''a todo app'') =
   [Yield status_generating, CallComplete, Yield status_processing, CallStream,
    Yield (DoneEvent
      [(lit ''repository_name'', lit ''ai-generated-project''),
       (lit ''description'', lit ''AI-generated project based on user requirements''),
       (lit ''readme_content'', fallback_readme (lit ''a todo app'')),
       (lit ''raw_response'', []),
       (lit ''note'', lit ''Fallback response due to JSON parsing issues'')])] \<and>
   event_stream json_loads (\<lambda>v. [])
     \<lparr>complete_response = Inl (Exn ConnectionError []), stream_response = Inr ([], Closed)\<rparr>
     (lit ''a todo app'') =
   [Yield status_generating, CallComplete, Yield status_processing, CallStream,
    Yield (DoneEvent
      [(lit ''repository_name'', lit ''ai-generated-project''),
       (lit ''description'', lit ''AI-generated project based on user requirements''),
       (lit ''readme_content'', fallback_readme (lit ''a todo app'')),
       (lit ''raw_response'', []),
       (lit ''note'', lit ''Fallback response due to JSON parsing issues'')])]"
proof -
  let ?P = "\<lparr>complete_response = Inl (Exn ConnectionError []),
      stream_response = Inr ([Inr (lit ''data: [DONE]'')], Closed)\<rparr>"
  let ?Q = "\<lparr>complete_response = Inl (Exn ConnectionError []),
      stream_response = Inr ([], Closed) :: exn + raw_line list \<times> stream_end\<rparr>"
  have b: "bnd (query_groq_complete ?P) message_content = Inl (Exn ConnectionError [])"
    "bnd (query_groq_complete ?Q) message_content = Inl (Exn ConnectionError [])"
    by (simp_all add: query_groq_complete_def)
  have dl: "is_done_line (Inr (lit ''data: [DONE]''))"
    by (simp add: is_done_line_def startswith_def strip_def isspace_def lit_def)
  have c: "consumed [Inr (lit ''data: [DONE]'')] = []" "consumed [] = []"
    unfolding consumed_def using dl by simp_all
  have e: "ends_cleanly [Inr (lit ''data: [DONE]'')] Closed" "ends_cleanly [] Closed"
    by (simp_all add: ends_cleanly_def)
  have l: "json_loads [] = Inl (Exn JSONDecodeError [])"
    by code_simp
  have i: "is_JSONDecodeError (Exn JSONDecodeError [])"
    by (simp add: is_JSONDecodeError_def)
  have p: "stream_response ?P = Inr ([Inr (lit ''data: [DONE]'')], Closed)" by simp
  have q: "stream_response ?Q = Inr ([], Closed)" by simp
  have t: "list_all (tolerated json_loads) (consumed [Inr (lit ''data: [DONE]'')])"
    "list_all (tolerated json_loads) (consumed [])"
    by (simp_all add: c)
  have k: "concat (map (contribution json_loads) (consumed [Inr (lit ''data: [DONE]'')])) = []"
    "concat (map (contribution json_loads) (consumed [])) = []"
    by (simp_all add: c)
  show ?thesis
    using empty_stream_falls_back [OF b(1) p t(1) e(1) k(1) l i, of "\<lambda>v. []" "lit ''a todo app''"]
      empty_stream_falls_back [OF b(2) q t(2) e(2) k(2) l i, of "\<lambda>v. []" "lit ''a todo app''"]
    by blast
qed

subsection \<open>Recovering an object from the model output\<close>









end
